theory Spec2Isabelle
  imports Main "HOL-Library.Word" "HOL-Library.Multiset"
begin

section \<open>JavaScript strings and errors\<close>

text \<open>
  A JavaScript string is a sequence of UTF-16 code units; \<open>.length\<close> counts code units.
  Literals of the source are ASCII and are written through \<open>js\<close>.
\<close>

type_synonym jsstring = "16 word list"

definition js :: "string \<Rightarrow> jsstring" where
  "js s = map of_char s"

text \<open>
  \<open>String.prototype.trim\<close> strips WhiteSpace and LineTerminator code units from both ends
  (ECMAScript: TAB, VT, FF, SP, NBSP, ZWNBSP, the Unicode space separators, LF, CR, LS, PS).
\<close>

definition isWhiteSpace :: "16 word \<Rightarrow> bool" where
  "isWhiteSpace c =
     (c = 0x0009 \<or> c = 0x000A \<or> c = 0x000B \<or> c = 0x000C \<or> c = 0x000D \<or> c = 0x0020 \<or>
      c = 0x00A0 \<or> c = 0x1680 \<or> (0x2000 \<le> c \<and> c \<le> 0x200A) \<or> c = 0x2028 \<or>
      c = 0x2029 \<or> c = 0x202F \<or> c = 0x205F \<or> c = 0x3000 \<or> c = 0xFEFF)"

definition trim :: "jsstring \<Rightarrow> jsstring" where
  "trim s = rev (dropWhile isWhiteSpace (rev (dropWhile isWhiteSpace s)))"

text \<open>
  The error classes of \<open>types/service-errors\<close> (all extend \<open>Error\<close>):
  \<open>ValidationError(message, field, value)\<close>, \<open>NotFoundError(message, resourceType, resourceId)\<close>,
  \<open>DatabaseError(message, cause)\<close>. \<open>SQLiteError\<close> is what the SQLite driver throws on a
  violated constraint, \<open>SyntaxError\<close> what \<open>JSON.parse\<close> throws.
\<close>

datatype sqlite_failure = ConstraintPrimaryKey | ConstraintForeignKey

datatype js_error =
    ValidationError jsstring jsstring jsstring
  | NotFoundError jsstring jsstring jsstring
  | DatabaseError jsstring "js_error option"
  | SQLiteError sqlite_failure
  | SyntaxError

fun isValidationError :: "js_error \<Rightarrow> bool" where
  "isValidationError (ValidationError m f v) = True"
| "isValidationError e = False"

fun isNotFoundError :: "js_error \<Rightarrow> bool" where
  "isNotFoundError (NotFoundError m t i) = True"
| "isNotFoundError e = False"

fun isDatabaseError :: "js_error \<Rightarrow> bool" where
  "isDatabaseError (DatabaseError m c) = True"
| "isDatabaseError e = False"

section \<open>The store\<close>

text \<open>
  Rows of the three tables as the migrations leave them at schema version 3. Timestamps
  are \<open>Date.now()\<close> values (integer milliseconds). A table is the list of its rows in
  insertion order. \<open>completed\<close> is an INTEGER column; \<open>custom_colors\<close> is nullable.
\<close>

record list_row =
  lrow_id :: jsstring
  lrow_name :: jsstring
  lrow_created_at :: int
  lrow_updated_at :: int

record item_row =
  irow_id :: jsstring
  irow_list_id :: jsstring
  irow_text :: jsstring
  irow_completed :: int
  irow_created_at :: int
  irow_updated_at :: int

record settings_row =
  srow_id :: int
  srow_theme_id :: jsstring
  srow_custom_colors :: "jsstring option"
  srow_created_at :: int
  srow_updated_at :: int

record database =
  shopping_lists :: "list_row list"
  shopping_items :: "item_row list"
  app_settings :: "settings_row list"

text \<open>
  The module-level handle \<open>dbInstance\<close> is \<open>None\<close> until \<open>initializeDatabase\<close> has run.
  A service call returns what it resolves or rejects with, and the handle afterwards.
\<close>

type_synonym 'a service_result = "(js_error + 'a) \<times> database option"

text \<open>
  The statements the services run. Foreign keys are enforced (\<open>PRAGMA foreign_keys = ON\<close>),
  so deleting a list deletes its items and an item's \<open>list_id\<close> must name a list.
  The two ordered queries are answered from the indexes of the first migration. The lists
  come from \<open>idx_lists_created (created_at DESC)\<close> read forwards: newest first, rows of equal
  \<open>created_at\<close> in insertion order. The items of a list come from
  \<open>idx_items_list (list_id, created_at DESC)\<close> read backwards: oldest first, rows of equal
  \<open>created_at\<close> in reverse insertion order.
\<close>

definition select_lists_order_created_desc :: "database \<Rightarrow> list_row list" where
  "select_lists_order_created_desc db = sort_key (\<lambda>r. - lrow_created_at r) (shopping_lists db)"

definition select_list_by_id :: "jsstring \<Rightarrow> database \<Rightarrow> list_row option" where
  "select_list_by_id i db = find (\<lambda>r. lrow_id r = i) (shopping_lists db)"

definition count_lists_by_id :: "jsstring \<Rightarrow> database \<Rightarrow> nat" where
  "count_lists_by_id i db = length (filter (\<lambda>r. lrow_id r = i) (shopping_lists db))"

definition insert_list :: "list_row \<Rightarrow> database \<Rightarrow> js_error + database" where
  "insert_list r db =
     (if lrow_id r \<in> set (map lrow_id (shopping_lists db))
      then Inl (SQLiteError ConstraintPrimaryKey)
      else Inr (db\<lparr>shopping_lists := shopping_lists db @ [r]\<rparr>))"

definition update_list_name :: "jsstring \<Rightarrow> int \<Rightarrow> jsstring \<Rightarrow> database \<Rightarrow> database" where
  "update_list_name nm now i db =
     db\<lparr>shopping_lists :=
          map (\<lambda>r. if lrow_id r = i then r\<lparr>lrow_name := nm, lrow_updated_at := now\<rparr> else r)
            (shopping_lists db)\<rparr>"

definition delete_list_by_id :: "jsstring \<Rightarrow> database \<Rightarrow> database" where
  "delete_list_by_id i db =
     db\<lparr>shopping_lists := filter (\<lambda>r. lrow_id r \<noteq> i) (shopping_lists db),
        shopping_items := filter (\<lambda>r. irow_list_id r \<noteq> i) (shopping_items db)\<rparr>"

definition select_items_by_list_order_created_asc :: "jsstring \<Rightarrow> database \<Rightarrow> item_row list" where
  "select_items_by_list_order_created_asc l db =
     rev (sort_key (\<lambda>r. - irow_created_at r)
            (filter (\<lambda>r. irow_list_id r = l) (shopping_items db)))"

definition select_item_by_id :: "jsstring \<Rightarrow> database \<Rightarrow> item_row option" where
  "select_item_by_id i db = find (\<lambda>r. irow_id r = i) (shopping_items db)"

definition insert_item :: "item_row \<Rightarrow> database \<Rightarrow> js_error + database" where
  "insert_item r db =
     (if irow_id r \<in> set (map irow_id (shopping_items db))
      then Inl (SQLiteError ConstraintPrimaryKey)
      else if irow_list_id r \<in> set (map lrow_id (shopping_lists db))
      then Inr (db\<lparr>shopping_items := shopping_items db @ [r]\<rparr>)
      else Inl (SQLiteError ConstraintForeignKey))"

definition update_item_text :: "jsstring \<Rightarrow> int \<Rightarrow> jsstring \<Rightarrow> database \<Rightarrow> database" where
  "update_item_text t now i db =
     db\<lparr>shopping_items :=
          map (\<lambda>r. if irow_id r = i then r\<lparr>irow_text := t, irow_updated_at := now\<rparr> else r)
            (shopping_items db)\<rparr>"

definition update_item_completed :: "int \<Rightarrow> int \<Rightarrow> jsstring \<Rightarrow> database \<Rightarrow> database" where
  "update_item_completed c now i db =
     db\<lparr>shopping_items :=
          map (\<lambda>r. if irow_id r = i then r\<lparr>irow_completed := c, irow_updated_at := now\<rparr> else r)
            (shopping_items db)\<rparr>"

definition delete_item_by_id :: "jsstring \<Rightarrow> database \<Rightarrow> database" where
  "delete_item_by_id i db =
     db\<lparr>shopping_items := filter (\<lambda>r. irow_id r \<noteq> i) (shopping_items db)\<rparr>"

section \<open>Shopping lists service\<close>

record ShoppingList =
  sl_id :: jsstring
  sl_name :: jsstring
  sl_createdAt :: int
  sl_updatedAt :: int

definition list_of_row :: "list_row \<Rightarrow> ShoppingList" where
  "list_of_row row =
     \<lparr>sl_id = lrow_id row, sl_name = lrow_name row,
      sl_createdAt = lrow_created_at row, sl_updatedAt = lrow_updated_at row\<rparr>"

definition not_initialized :: js_error where
  "not_initialized = DatabaseError (js ''Database not initialized'') None"

definition validateListName :: "jsstring \<Rightarrow> bool \<Rightarrow> js_error + jsstring" where
  "validateListName name allowDefault =
     (let trimmed = trim name in
      if length trimmed = 0 then
        (if allowDefault then Inr (js ''Shopping List'')
         else Inl (ValidationError (js ''List name cannot be empty'') (js ''name'') name))
      else if length trimmed > 100 then
        Inl (ValidationError (js ''List name cannot exceed 100 characters'') (js ''name'') name)
      else Inr trimmed)"

text \<open>
  The \<open>catch\<close> blocks of the lists service rethrow the service's own error classes and wrap
  anything else in a \<open>DatabaseError\<close> carrying the cause.
\<close>

definition lists_catch :: "string \<Rightarrow> js_error \<Rightarrow> js_error" where
  "lists_catch msg e =
     (if isValidationError e \<or> isNotFoundError e then e
      else if isDatabaseError e then e
      else DatabaseError (js msg) (Some e))"

definition ShoppingListsService_getAll :: "database option \<Rightarrow> ShoppingList list service_result" where
  "ShoppingListsService_getAll dbInstance =
     (case dbInstance of
        None \<Rightarrow> (Inl not_initialized, dbInstance)
      | Some db \<Rightarrow> (Inr (map list_of_row (select_lists_order_created_desc db)), dbInstance))"

definition ShoppingListsService_getById ::
  "jsstring \<Rightarrow> database option \<Rightarrow> ShoppingList option service_result" where
  "ShoppingListsService_getById i dbInstance =
     (case dbInstance of
        None \<Rightarrow> (Inl not_initialized, dbInstance)
      | Some db \<Rightarrow> (Inr (map_option list_of_row (select_list_by_id i db)), dbInstance))"

text \<open>
  \<open>create(dto)\<close>: \<open>name\<close> is \<open>dto.name\<close>, \<open>uuid\<close> the value \<open>generateUUID()\<close> returns and
  \<open>now\<close> the value of \<open>Date.now()\<close>.
\<close>

definition ShoppingListsService_create ::
  "jsstring \<Rightarrow> jsstring \<Rightarrow> int \<Rightarrow> database option \<Rightarrow> ShoppingList service_result" where
  "ShoppingListsService_create name uuid now dbInstance =
     (case dbInstance of
        None \<Rightarrow> (Inl (lists_catch ''Failed to create shopping list'' not_initialized), dbInstance)
      | Some db \<Rightarrow>
          (case validateListName name True of
             Inl e \<Rightarrow> (Inl (lists_catch ''Failed to create shopping list'' e), dbInstance)
           | Inr nm \<Rightarrow>
               (let newList = \<lparr>sl_id = uuid, sl_name = nm, sl_createdAt = now, sl_updatedAt = now\<rparr>
                in case insert_list \<lparr>lrow_id = sl_id newList, lrow_name = sl_name newList,
                                     lrow_created_at = sl_createdAt newList,
                                     lrow_updated_at = sl_updatedAt newList\<rparr> db of
                     Inl e \<Rightarrow> (Inl (lists_catch ''Failed to create shopping list'' e), dbInstance)
                   | Inr db' \<Rightarrow> (Inr newList, Some db'))))"

definition ShoppingListsService_update ::
  "jsstring \<Rightarrow> jsstring \<Rightarrow> int \<Rightarrow> database option \<Rightarrow> ShoppingList service_result" where
  "ShoppingListsService_update i name now dbInstance =
     (case dbInstance of
        None \<Rightarrow> (Inl (lists_catch ''Failed to update shopping list'' not_initialized), dbInstance)
      | Some db \<Rightarrow>
          (case validateListName name False of
             Inl e \<Rightarrow> (Inl (lists_catch ''Failed to update shopping list'' e), dbInstance)
           | Inr nm \<Rightarrow>
               (case fst (ShoppingListsService_getById i dbInstance) of
                  Inl e \<Rightarrow> (Inl (lists_catch ''Failed to update shopping list'' e), dbInstance)
                | Inr None \<Rightarrow>
                    (Inl (lists_catch ''Failed to update shopping list''
                            (NotFoundError (js ''Shopping list not found: '' @ i)
                               (js ''ShoppingList'') i)), dbInstance)
                | Inr (Some existing) \<Rightarrow>
                    (Inr (existing\<lparr>sl_name := nm, sl_updatedAt := now\<rparr>),
                     Some (update_list_name nm now i db)))))"

definition ShoppingListsService_deleteList ::
  "jsstring \<Rightarrow> database option \<Rightarrow> unit service_result" where
  "ShoppingListsService_deleteList i dbInstance =
     (case dbInstance of
        None \<Rightarrow> (Inl (lists_catch ''Failed to delete shopping list'' not_initialized), dbInstance)
      | Some db \<Rightarrow>
          (case fst (ShoppingListsService_getById i dbInstance) of
             Inl e \<Rightarrow> (Inl (lists_catch ''Failed to delete shopping list'' e), dbInstance)
           | Inr None \<Rightarrow>
               (Inl (lists_catch ''Failed to delete shopping list''
                       (NotFoundError (js ''Shopping list not found: '' @ i)
                          (js ''ShoppingList'') i)), dbInstance)
           | Inr (Some existing) \<Rightarrow> (Inr (), Some (delete_list_by_id i db))))"

section \<open>Shopping items service\<close>

record ShoppingItem =
  si_id :: jsstring
  si_listId :: jsstring
  si_text :: jsstring
  si_completed :: bool
  si_createdAt :: int
  si_updatedAt :: int

text \<open>\<open>Boolean(row.completed)\<close> on an INTEGER column: every value but 0 is truthy.\<close>

definition item_of_row :: "item_row \<Rightarrow> ShoppingItem" where
  "item_of_row row =
     \<lparr>si_id = irow_id row, si_listId = irow_list_id row, si_text = irow_text row,
      si_completed = (irow_completed row \<noteq> 0),
      si_createdAt = irow_created_at row, si_updatedAt = irow_updated_at row\<rparr>"

definition validateItemText :: "jsstring \<Rightarrow> js_error + jsstring" where
  "validateItemText txt =
     (let trimmed = trim txt in
      if length trimmed = 0 then
        Inl (ValidationError (js ''Item text cannot be empty'') (js ''text'') txt)
      else if length trimmed > 500 then
        Inl (ValidationError (js ''Item text cannot exceed 500 characters'') (js ''text'') txt)
      else Inr trimmed)"

text \<open>
  The \<open>catch\<close> blocks of the items service: the two reads rethrow a \<open>DatabaseError\<close>,
  \<open>create\<close> and \<open>update\<close> rethrow a \<open>ValidationError\<close> or \<open>NotFoundError\<close>, \<open>copy\<close>,
  \<open>toggleComplete\<close> and \<open>deleteItem\<close> only a \<open>NotFoundError\<close>; everything else is wrapped.
\<close>

definition items_read_catch :: "string \<Rightarrow> js_error \<Rightarrow> js_error" where
  "items_read_catch msg e = (if isDatabaseError e then e else DatabaseError (js msg) (Some e))"

definition items_write_catch :: "string \<Rightarrow> js_error \<Rightarrow> js_error" where
  "items_write_catch msg e =
     (if isValidationError e \<or> isNotFoundError e then e else DatabaseError (js msg) (Some e))"

definition items_notfound_catch :: "string \<Rightarrow> js_error \<Rightarrow> js_error" where
  "items_notfound_catch msg e =
     (if isNotFoundError e then e else DatabaseError (js msg) (Some e))"

definition ShoppingItemsService_getByListId ::
  "jsstring \<Rightarrow> database option \<Rightarrow> ShoppingItem list service_result" where
  "ShoppingItemsService_getByListId listId dbInstance =
     (case dbInstance of
        None \<Rightarrow> (Inl (items_read_catch ''Failed to retrieve shopping items'' not_initialized),
                 dbInstance)
      | Some db \<Rightarrow>
          (Inr (map item_of_row (select_items_by_list_order_created_asc listId db)), dbInstance))"

definition ShoppingItemsService_getById ::
  "jsstring \<Rightarrow> database option \<Rightarrow> ShoppingItem option service_result" where
  "ShoppingItemsService_getById i dbInstance =
     (case dbInstance of
        None \<Rightarrow> (Inl (items_read_catch ''Failed to retrieve shopping item'' not_initialized),
                 dbInstance)
      | Some db \<Rightarrow> (Inr (map_option item_of_row (select_item_by_id i db)), dbInstance))"

text \<open>
  \<open>create(dto)\<close>: \<open>listId\<close> and \<open>txt\<close> are \<open>dto.listId\<close> and \<open>dto.text\<close>, \<open>uuid\<close> the value
  \<open>generateUUID()\<close> returns and \<open>now\<close> the value of \<open>Date.now()\<close>.
\<close>

definition ShoppingItemsService_create ::
  "jsstring \<Rightarrow> jsstring \<Rightarrow> jsstring \<Rightarrow> int \<Rightarrow> database option \<Rightarrow> ShoppingItem service_result" where
  "ShoppingItemsService_create listId txt uuid now dbInstance =
     (case dbInstance of
        None \<Rightarrow> (Inl (items_write_catch ''Failed to create shopping item'' not_initialized),
                 dbInstance)
      | Some db \<Rightarrow>
          (case validateItemText txt of
             Inl e \<Rightarrow> (Inl (items_write_catch ''Failed to create shopping item'' e), dbInstance)
           | Inr validatedText \<Rightarrow>
               (if count_lists_by_id listId db = 0 then
                  (Inl (items_write_catch ''Failed to create shopping item''
                          (NotFoundError (js ''Shopping list not found'') (js ''listId'') listId)),
                   dbInstance)
                else
                  (case insert_item \<lparr>irow_id = uuid, irow_list_id = listId,
                                      irow_text = validatedText, irow_completed = 0,
                                      irow_created_at = now, irow_updated_at = now\<rparr> db of
                     Inl e \<Rightarrow>
                       (Inl (items_write_catch ''Failed to create shopping item'' e), dbInstance)
                   | Inr db' \<Rightarrow>
                       (Inr \<lparr>si_id = uuid, si_listId = listId, si_text = validatedText,
                             si_completed = False, si_createdAt = now, si_updatedAt = now\<rparr>,
                        Some db')))))"

definition ShoppingItemsService_update ::
  "jsstring \<Rightarrow> jsstring \<Rightarrow> int \<Rightarrow> database option \<Rightarrow> ShoppingItem service_result" where
  "ShoppingItemsService_update i txt now dbInstance =
     (case dbInstance of
        None \<Rightarrow> (Inl (items_write_catch ''Failed to update shopping item'' not_initialized),
                 dbInstance)
      | Some db \<Rightarrow>
          (case validateItemText txt of
             Inl e \<Rightarrow> (Inl (items_write_catch ''Failed to update shopping item'' e), dbInstance)
           | Inr validatedText \<Rightarrow>
               (case fst (ShoppingItemsService_getById i dbInstance) of
                  Inl e \<Rightarrow>
                    (Inl (items_write_catch ''Failed to update shopping item'' e), dbInstance)
                | Inr None \<Rightarrow>
                    (Inl (items_write_catch ''Failed to update shopping item''
                            (NotFoundError (js ''Shopping item not found'') (js ''id'') i)),
                     dbInstance)
                | Inr (Some existingItem) \<Rightarrow>
                    (Inr (existingItem\<lparr>si_text := validatedText, si_updatedAt := now\<rparr>),
                     Some (update_item_text validatedText now i db)))))"

definition ShoppingItemsService_copy ::
  "jsstring \<Rightarrow> jsstring \<Rightarrow> int \<Rightarrow> database option \<Rightarrow> ShoppingItem service_result" where
  "ShoppingItemsService_copy i newId now dbInstance =
     (case dbInstance of
        None \<Rightarrow> (Inl (items_notfound_catch ''Failed to copy shopping item'' not_initialized),
                 dbInstance)
      | Some db \<Rightarrow>
          (case fst (ShoppingItemsService_getById i dbInstance) of
             Inl e \<Rightarrow> (Inl (items_notfound_catch ''Failed to copy shopping item'' e), dbInstance)
           | Inr None \<Rightarrow>
               (Inl (items_notfound_catch ''Failed to copy shopping item''
                       (NotFoundError (js ''Shopping item not found'') (js ''id'') i)),
                dbInstance)
           | Inr (Some sourceItem) \<Rightarrow>
               (case insert_item \<lparr>irow_id = newId, irow_list_id = si_listId sourceItem,
                                   irow_text = si_text sourceItem,
                                   irow_completed = (if si_completed sourceItem then 1 else 0),
                                   irow_created_at = now, irow_updated_at = now\<rparr> db of
                  Inl e \<Rightarrow>
                    (Inl (items_notfound_catch ''Failed to copy shopping item'' e), dbInstance)
                | Inr db' \<Rightarrow>
                    (Inr \<lparr>si_id = newId, si_listId = si_listId sourceItem,
                          si_text = si_text sourceItem, si_completed = si_completed sourceItem,
                          si_createdAt = now, si_updatedAt = now\<rparr>,
                     Some db'))))"

definition ShoppingItemsService_toggleComplete ::
  "jsstring \<Rightarrow> int \<Rightarrow> database option \<Rightarrow> ShoppingItem service_result" where
  "ShoppingItemsService_toggleComplete i now dbInstance =
     (case dbInstance of
        None \<Rightarrow> (Inl (items_notfound_catch ''Failed to toggle item completion'' not_initialized),
                 dbInstance)
      | Some db \<Rightarrow>
          (case fst (ShoppingItemsService_getById i dbInstance) of
             Inl e \<Rightarrow>
               (Inl (items_notfound_catch ''Failed to toggle item completion'' e), dbInstance)
           | Inr None \<Rightarrow>
               (Inl (items_notfound_catch ''Failed to toggle item completion''
                       (NotFoundError (js ''Shopping item not found'') (js ''id'') i)),
                dbInstance)
           | Inr (Some existingItem) \<Rightarrow>
               (let newCompleted = \<not> si_completed existingItem
                in (Inr (existingItem\<lparr>si_completed := newCompleted, si_updatedAt := now\<rparr>),
                    Some (update_item_completed (if newCompleted then 1 else 0) now i db)))))"

definition ShoppingItemsService_deleteItem ::
  "jsstring \<Rightarrow> database option \<Rightarrow> unit service_result" where
  "ShoppingItemsService_deleteItem i dbInstance =
     (case dbInstance of
        None \<Rightarrow> (Inl (items_notfound_catch ''Failed to delete shopping item'' not_initialized),
                 dbInstance)
      | Some db \<Rightarrow>
          (case fst (ShoppingItemsService_getById i dbInstance) of
             Inl e \<Rightarrow> (Inl (items_notfound_catch ''Failed to delete shopping item'' e), dbInstance)
           | Inr None \<Rightarrow>
               (Inl (items_notfound_catch ''Failed to delete shopping item''
                       (NotFoundError (js ''Shopping item not found'') (js ''id'') i)),
                dbInstance)
           | Inr (Some existingItem) \<Rightarrow> (Inr (), Some (delete_item_by_id i db))))"

section \<open>Settings service\<close>

text \<open>
  \<open>AppSettings\<close> with \<open>customColors\<close> of the type \<open>JSON.parse\<close> produces; \<open>JSON_parse\<close> is
  passed in and returns \<open>None\<close> where \<open>JSON.parse\<close> throws. A JavaScript string is truthy
  when it is not empty. \<open>ThemePresetId\<close> is a union of string literals, a string at run time.
\<close>

record 'c AppSettings =
  as_id :: int
  as_themeId :: jsstring
  as_customColors :: "'c option"
  as_createdAt :: int
  as_updatedAt :: int

definition select_settings :: "database \<Rightarrow> settings_row option" where
  "select_settings db = find (\<lambda>r. srow_id r = 1) (app_settings db)"

definition getSettings ::
  "(jsstring \<Rightarrow> 'c option) \<Rightarrow> database option \<Rightarrow> 'c AppSettings service_result" where
  "getSettings JSON_parse dbInstance =
     (case dbInstance of
        None \<Rightarrow> (Inl not_initialized, dbInstance)
      | Some db \<Rightarrow>
          (case select_settings db of
             None \<Rightarrow>
               (Inl (DatabaseError
                       (js ''Settings not found. Database may not be initialized properly.'')
                       None), dbInstance)
           | Some result \<Rightarrow>
               (case (case srow_custom_colors result of
                        None \<Rightarrow> Inr None
                      | Some s \<Rightarrow>
                          if s = [] then Inr None
                          else (case JSON_parse s of
                                  None \<Rightarrow> Inl SyntaxError
                                | Some v \<Rightarrow> Inr (Some v))) of
                  Inl e \<Rightarrow>
                    (Inl (DatabaseError (js ''Failed to retrieve app settings'') (Some e)),
                     dbInstance)
                | Inr cc \<Rightarrow>
                    (Inr \<lparr>as_id = srow_id result, as_themeId = srow_theme_id result,
                          as_customColors = cc, as_createdAt = srow_created_at result,
                          as_updatedAt = srow_updated_at result\<rparr>, dbInstance))))"

text \<open>
  The three writers end in \<open>return getSettings()\<close>: the promise is returned without
  \<open>await\<close>, so a rejection of \<open>getSettings\<close> passes the \<open>catch\<close> block by.
\<close>

definition updateTheme ::
  "(jsstring \<Rightarrow> 'c option) \<Rightarrow> jsstring \<Rightarrow> int \<Rightarrow> database option \<Rightarrow> 'c AppSettings service_result" where
  "updateTheme JSON_parse themeId now dbInstance =
     (case dbInstance of
        None \<Rightarrow> (Inl (DatabaseError (js ''Failed to update theme'') (Some not_initialized)),
                 dbInstance)
      | Some db \<Rightarrow>
          getSettings JSON_parse
            (Some (db\<lparr>app_settings :=
                       map (\<lambda>r. if srow_id r = 1
                                 then r\<lparr>srow_theme_id := themeId, srow_updated_at := now\<rparr>
                                 else r) (app_settings db)\<rparr>)))"

text \<open>\<open>customColorsJson\<close> is \<open>JSON.stringify(dto.customColors)\<close>.\<close>

definition updateCustomColors ::
  "(jsstring \<Rightarrow> 'c option) \<Rightarrow> jsstring \<Rightarrow> int \<Rightarrow> database option \<Rightarrow> 'c AppSettings service_result" where
  "updateCustomColors JSON_parse customColorsJson now dbInstance =
     (case dbInstance of
        None \<Rightarrow> (Inl (DatabaseError (js ''Failed to update custom colors'') (Some not_initialized)),
                 dbInstance)
      | Some db \<Rightarrow>
          getSettings JSON_parse
            (Some (db\<lparr>app_settings :=
                       map (\<lambda>r. if srow_id r = 1
                                 then r\<lparr>srow_theme_id := js ''custom'',
                                        srow_custom_colors := Some customColorsJson,
                                        srow_updated_at := now\<rparr>
                                 else r) (app_settings db)\<rparr>)))"

definition resetToDefault ::
  "(jsstring \<Rightarrow> 'c option) \<Rightarrow> int \<Rightarrow> database option \<Rightarrow> 'c AppSettings service_result" where
  "resetToDefault JSON_parse now dbInstance =
     (case dbInstance of
        None \<Rightarrow>
          (Inl (DatabaseError (js ''Failed to reset to default theme'') (Some not_initialized)),
           dbInstance)
      | Some db \<Rightarrow>
          getSettings JSON_parse
            (Some (db\<lparr>app_settings :=
                       map (\<lambda>r. if srow_id r = 1
                                 then r\<lparr>srow_theme_id := js ''default'',
                                        srow_custom_colors := None,
                                        srow_updated_at := now\<rparr>
                                 else r) (app_settings db)\<rparr>)))"

section \<open>The hooks\<close>

text \<open>
  State of \<open>useShoppingItems\<close>. A mutation is an async function: it updates the state,
  awaits one service call and updates the state again. State updates are applied in the
  order they are issued: \<open>setItems(prev => ...)\<close> acts on the live state \<open>st\<close>. The
  callbacks \<open>updateItem\<close>, \<open>toggleComplete\<close> and \<open>deleteItem\<close> also read the variable
  \<open>items\<close> they close over, which is the list of the render that built the callback
  (\<open>useCallback\<close> with dependency \<open>[items]\<close>); it is the argument \<open>renderItems\<close>, and it is
  the live list only as long as no mutation has changed the state since that render. A
  run records the state at the moment the service is called, the state when the returned
  promise settles, what the promise settles with, and the database handle afterwards.
  Every value the services throw is an \<open>Error\<close>, so
  \<open>err instanceof Error ? err : new Error(...)\<close> is \<open>err\<close>.
\<close>

record items_hook =
  items :: "ShoppingItem list"
  isLoading :: bool
  error :: "js_error option"

record 'a items_run =
  at_service_call :: items_hook
  settled :: items_hook
  outcome :: "js_error + 'a"
  handle :: "database option"

text \<open>\<open>Array.prototype.findIndex\<close>: the first index whose element passes, or \<open>-1\<close>.\<close>

fun findIndex :: "('a \<Rightarrow> bool) \<Rightarrow> 'a list \<Rightarrow> int" where
  "findIndex P [] = - 1"
| "findIndex P (x # xs) =
     (if P x then 0 else (let k = findIndex P xs in if k = - 1 then - 1 else k + 1))"

definition createItem ::
  "jsstring \<Rightarrow> jsstring \<Rightarrow> jsstring \<Rightarrow> int \<Rightarrow> items_hook \<Rightarrow> database option
   \<Rightarrow> ShoppingItem items_run" where
  "createItem listId txt uuid now st dbInstance =
     (let st1 = st\<lparr>error := None\<rparr>;
          res = ShoppingItemsService_create listId txt uuid now dbInstance
      in case fst res of
           Inr newItem \<Rightarrow>
             \<lparr>at_service_call = st1, settled = st1\<lparr>items := items st1 @ [newItem]\<rparr>,
              outcome = Inr newItem, handle = snd res\<rparr>
         | Inl err \<Rightarrow>
             \<lparr>at_service_call = st1, settled = st1\<lparr>error := Some err\<rparr>,
              outcome = Inl err, handle = snd res\<rparr>)"

text \<open>\<open>uiNow\<close> is the \<open>Date.now()\<close> of the optimistic entry, \<open>now\<close> the service's.\<close>

definition updateItem ::
  "jsstring \<Rightarrow> jsstring \<Rightarrow> int \<Rightarrow> int \<Rightarrow> ShoppingItem list \<Rightarrow> items_hook \<Rightarrow> database option
   \<Rightarrow> ShoppingItem items_run" where
  "updateItem i txt uiNow now renderItems st dbInstance =
     (let st1 = st\<lparr>error := None\<rparr>;
          previousItems = renderItems;
          st2 = st1\<lparr>items :=
                     map (\<lambda>item. if si_id item = i
                                  then item\<lparr>si_text := txt, si_updatedAt := uiNow\<rparr>
                                  else item) (items st1)\<rparr>;
          res = ShoppingItemsService_update i txt now dbInstance
      in case fst res of
           Inr updatedItem \<Rightarrow>
             \<lparr>at_service_call = st2,
              settled = st2\<lparr>items := map (\<lambda>item. if si_id item = i then updatedItem else item)
                                        (items st2)\<rparr>,
              outcome = Inr updatedItem, handle = snd res\<rparr>
         | Inl err \<Rightarrow>
             \<lparr>at_service_call = st2,
              settled = st2\<lparr>items := previousItems, error := Some err\<rparr>,
              outcome = Inl err, handle = snd res\<rparr>)"

definition copyItem ::
  "jsstring \<Rightarrow> jsstring \<Rightarrow> int \<Rightarrow> items_hook \<Rightarrow> database option \<Rightarrow> ShoppingItem items_run" where
  "copyItem i newId now st dbInstance =
     (let st1 = st\<lparr>error := None\<rparr>;
          res = ShoppingItemsService_copy i newId now dbInstance
      in case fst res of
           Inr copiedItem \<Rightarrow>
             \<lparr>at_service_call = st1,
              settled =
                st1\<lparr>items :=
                      (let prevItems = items st1;
                           sourceIndex = findIndex (\<lambda>item. si_id item = i) prevItems
                       in if sourceIndex = - 1 then prevItems @ [copiedItem]
                          else take (nat (sourceIndex + 1)) prevItems @ [copiedItem] @
                               drop (nat (sourceIndex + 1)) prevItems)\<rparr>,
              outcome = Inr copiedItem, handle = snd res\<rparr>
         | Inl err \<Rightarrow>
             \<lparr>at_service_call = st1, settled = st1\<lparr>error := Some err\<rparr>,
              outcome = Inl err, handle = snd res\<rparr>)"

definition toggleComplete ::
  "jsstring \<Rightarrow> int \<Rightarrow> int \<Rightarrow> ShoppingItem list \<Rightarrow> items_hook \<Rightarrow> database option
   \<Rightarrow> ShoppingItem items_run" where
  "toggleComplete i uiNow now renderItems st dbInstance =
     (let st1 = st\<lparr>error := None\<rparr>;
          previousItems = renderItems;
          st2 = st1\<lparr>items :=
                     map (\<lambda>item. if si_id item = i
                                  then item\<lparr>si_completed := \<not> si_completed item,
                                            si_updatedAt := uiNow\<rparr>
                                  else item) (items st1)\<rparr>;
          res = ShoppingItemsService_toggleComplete i now dbInstance
      in case fst res of
           Inr updatedItem \<Rightarrow>
             \<lparr>at_service_call = st2,
              settled = st2\<lparr>items := map (\<lambda>item. if si_id item = i then updatedItem else item)
                                        (items st2)\<rparr>,
              outcome = Inr updatedItem, handle = snd res\<rparr>
         | Inl err \<Rightarrow>
             \<lparr>at_service_call = st2,
              settled = st2\<lparr>items := previousItems, error := Some err\<rparr>,
              outcome = Inl err, handle = snd res\<rparr>)"

definition deleteItem ::
  "jsstring \<Rightarrow> ShoppingItem list \<Rightarrow> items_hook \<Rightarrow> database option \<Rightarrow> unit items_run" where
  "deleteItem i renderItems st dbInstance =
     (let st1 = st\<lparr>error := None\<rparr>;
          previousItems = renderItems;
          st2 = st1\<lparr>items := filter (\<lambda>item. si_id item \<noteq> i) (items st1)\<rparr>;
          res = ShoppingItemsService_deleteItem i dbInstance
      in case fst res of
           Inr u \<Rightarrow>
             \<lparr>at_service_call = st2, settled = st2, outcome = Inr (), handle = snd res\<rparr>
         | Inl err \<Rightarrow>
             \<lparr>at_service_call = st2,
              settled = st2\<lparr>items := previousItems, error := Some err\<rparr>,
              outcome = Inl err, handle = snd res\<rparr>)"

text \<open>
  State and mutations of \<open>useShoppingLists\<close>, on the same pattern; \<open>renderLists\<close> is the
  \<open>lists\<close> that \<open>deleteList\<close> closes over (dependency \<open>[lists]\<close>).
\<close>

record lists_hook =
  lists :: "ShoppingList list"
  lists_isLoading :: bool
  lists_error :: "js_error option"

record 'a lists_run =
  lists_at_service_call :: lists_hook
  lists_settled :: lists_hook
  lists_outcome :: "js_error + 'a"
  lists_handle :: "database option"

definition createList ::
  "jsstring \<Rightarrow> jsstring \<Rightarrow> int \<Rightarrow> lists_hook \<Rightarrow> database option \<Rightarrow> ShoppingList lists_run" where
  "createList name uuid now st dbInstance =
     (let st1 = st\<lparr>lists_error := None\<rparr>;
          res = ShoppingListsService_create name uuid now dbInstance
      in case fst res of
           Inr newList \<Rightarrow>
             \<lparr>lists_at_service_call = st1, lists_settled = st1\<lparr>lists := newList # lists st1\<rparr>,
              lists_outcome = Inr newList, lists_handle = snd res\<rparr>
         | Inl err \<Rightarrow>
             \<lparr>lists_at_service_call = st1, lists_settled = st1\<lparr>lists_error := Some err\<rparr>,
              lists_outcome = Inl err, lists_handle = snd res\<rparr>)"

definition deleteList ::
  "jsstring \<Rightarrow> ShoppingList list \<Rightarrow> lists_hook \<Rightarrow> database option \<Rightarrow> unit lists_run" where
  "deleteList i renderLists st dbInstance =
     (let st1 = st\<lparr>lists_error := None\<rparr>;
          previousLists = renderLists;
          st2 = st1\<lparr>lists := filter (\<lambda>l. sl_id l \<noteq> i) (lists st1)\<rparr>;
          res = ShoppingListsService_deleteList i dbInstance
      in case fst res of
           Inr u \<Rightarrow>
             \<lparr>lists_at_service_call = st2, lists_settled = st2, lists_outcome = Inr (),
              lists_handle = snd res\<rparr>
         | Inl err \<Rightarrow>
             \<lparr>lists_at_service_call = st2,
              lists_settled = st2\<lparr>lists := previousLists, lists_error := Some err\<rparr>,
              lists_outcome = Inl err, lists_handle = snd res\<rparr>)"

section \<open>Database service: the first migration\<close>

text \<open>
  The schema as data: what \<open>CREATE TABLE\<close> and \<open>CREATE INDEX\<close> declare, and the rows of
  \<open>schema_version\<close>. A column constraint \<open>CHECK(length(c) >= lo AND length(c) <= hi)\<close> is
  \<open>LengthBetween lo hi\<close>. The table \<open>schema_version\<close>, which \<open>runMigrations\<close> creates before
  any step, is the list of its rows (version, applied_at).
\<close>

datatype sql_type = TEXT | INTEGER

datatype sql_value = Text jsstring | Integer int | Null

datatype sort_order = ASC | DESC

datatype check_constraint = LengthBetween nat nat

record column_def =
  col_name :: string
  col_type :: sql_type
  col_primary_key :: bool
  col_not_null :: bool
  col_check :: "check_constraint option"

record foreign_key =
  fk_column :: string
  fk_ref_table :: string
  fk_ref_column :: string
  fk_on_delete_cascade :: bool

record table_def =
  tbl_name :: string
  tbl_columns :: "column_def list"
  tbl_foreign_keys :: "foreign_key list"

record index_def =
  idx_name :: string
  idx_table :: string
  idx_columns :: "(string \<times> sort_order) list"

record schema =
  tables :: "table_def list"
  indexes :: "index_def list"
  schema_version :: "(int \<times> int) list"

definition create_table_if_not_exists :: "table_def \<Rightarrow> schema \<Rightarrow> schema" where
  "create_table_if_not_exists t sch =
     (if tbl_name t \<in> set (map tbl_name (tables sch)) then sch
      else sch\<lparr>tables := tables sch @ [t]\<rparr>)"

definition create_index_if_not_exists :: "index_def \<Rightarrow> schema \<Rightarrow> schema" where
  "create_index_if_not_exists ix sch =
     (if idx_name ix \<in> set (map idx_name (indexes sch)) then sch
      else sch\<lparr>indexes := indexes sch @ [ix]\<rparr>)"

definition insert_schema_version :: "int \<Rightarrow> int \<Rightarrow> schema \<Rightarrow> js_error + schema" where
  "insert_schema_version v applied_at sch =
     (if v \<in> set (map fst (schema_version sch)) then Inl (SQLiteError ConstraintPrimaryKey)
      else Inr (sch\<lparr>schema_version := schema_version sch @ [(v, applied_at)]\<rparr>))"

text \<open>
  \<open>runMigrationV1\<close>: one \<open>execAsync\<close> of five statements, run in order outside any
  transaction; \<open>now\<close> is the \<open>Date.now()\<close> spliced into the last one. The result is the
  error thrown, if any, and the schema the statements left.
\<close>

definition shopping_lists_table :: table_def where
  "shopping_lists_table =
     \<lparr>tbl_name = ''shopping_lists'',
      tbl_columns =
        [\<lparr>col_name = ''id'', col_type = TEXT, col_primary_key = True, col_not_null = True,
          col_check = None\<rparr>,
         \<lparr>col_name = ''name'', col_type = TEXT, col_primary_key = False, col_not_null = True,
          col_check = None\<rparr>,
         \<lparr>col_name = ''created_at'', col_type = INTEGER, col_primary_key = False,
          col_not_null = True, col_check = None\<rparr>,
         \<lparr>col_name = ''updated_at'', col_type = INTEGER, col_primary_key = False,
          col_not_null = True, col_check = None\<rparr>],
      tbl_foreign_keys = []\<rparr>"

definition shopping_items_table :: table_def where
  "shopping_items_table =
     \<lparr>tbl_name = ''shopping_items'',
      tbl_columns =
        [\<lparr>col_name = ''id'', col_type = TEXT, col_primary_key = True, col_not_null = True,
          col_check = None\<rparr>,
         \<lparr>col_name = ''list_id'', col_type = TEXT, col_primary_key = False, col_not_null = True,
          col_check = None\<rparr>,
         \<lparr>col_name = ''text'', col_type = TEXT, col_primary_key = False, col_not_null = True,
          col_check = None\<rparr>,
         \<lparr>col_name = ''created_at'', col_type = INTEGER, col_primary_key = False,
          col_not_null = True, col_check = None\<rparr>,
         \<lparr>col_name = ''updated_at'', col_type = INTEGER, col_primary_key = False,
          col_not_null = True, col_check = None\<rparr>],
      tbl_foreign_keys =
        [\<lparr>fk_column = ''list_id'', fk_ref_table = ''shopping_lists'', fk_ref_column = ''id'',
          fk_on_delete_cascade = True\<rparr>]\<rparr>"

definition runMigrationV1 :: "int \<Rightarrow> schema \<Rightarrow> js_error option \<times> schema" where
  "runMigrationV1 now sch =
     (let sch1 = create_table_if_not_exists shopping_lists_table sch;
          sch2 = create_table_if_not_exists shopping_items_table sch1;
          sch3 = create_index_if_not_exists
                   \<lparr>idx_name = ''idx_lists_created'', idx_table = ''shopping_lists'',
                    idx_columns = [(''created_at'', DESC)]\<rparr> sch2;
          sch4 = create_index_if_not_exists
                   \<lparr>idx_name = ''idx_items_list'', idx_table = ''shopping_items'',
                    idx_columns = [(''list_id'', ASC), (''created_at'', DESC)]\<rparr> sch3
      in case insert_schema_version 1 now sch4 of
           Inl e \<Rightarrow> (Some e, sch4)
         | Inr sch5 \<Rightarrow> (None, sch5))"

text \<open>
  What the store does with a value offered for a column: SQLite's \<open>length\<close> of a text counts
  characters, here the code units that are not the second half of a surrogate pair. A
  column without a \<open>CHECK\<close> takes every non-null value.
\<close>

definition sql_length :: "jsstring \<Rightarrow> nat" where
  "sql_length s = length (filter (\<lambda>c. \<not> (0xDC00 \<le> c \<and> c \<le> 0xDFFF)) s)"

fun check_holds :: "check_constraint \<Rightarrow> sql_value \<Rightarrow> bool" where
  "check_holds (LengthBetween lo hi) (Text s) = (lo \<le> sql_length s \<and> sql_length s \<le> hi)"
| "check_holds (LengthBetween lo hi) v = True"

definition column_accepts :: "column_def \<Rightarrow> sql_value \<Rightarrow> bool" where
  "column_accepts c v =
     (if v = Null then \<not> col_not_null c
      else (case col_check c of None \<Rightarrow> True | Some ck \<Rightarrow> check_holds ck v))"

definition store_accepts :: "schema \<Rightarrow> string \<Rightarrow> string \<Rightarrow> sql_value \<Rightarrow> bool" where
  "store_accepts sch tbl col v =
     (case find (\<lambda>t. tbl_name t = tbl) (tables sch) of
        None \<Rightarrow> False
      | Some t \<Rightarrow>
          (case find (\<lambda>c. col_name c = col) (tbl_columns t) of
             None \<Rightarrow> False
           | Some c \<Rightarrow> column_accepts c v))"

definition empty_schema :: schema where
  "empty_schema = \<lparr>tables = [], indexes = [], schema_version = []\<rparr>"

section \<open>Example data\<close>

text \<open>
  A small store: two lists, two items of the first list, and the settings row holding a
  custom theme whose colours are the JSON text \<open>{"accentColor":"#ff0000"}\<close>.
\<close>

definition example_colors_json :: jsstring where
  "example_colors_json =
     js ''{'' @ [0x22] @ js ''accentColor'' @ [0x22] @ js '':'' @ [0x22] @ js ''#ff0000'' @
     [0x22] @ js ''}''"

definition milk_row :: item_row where
  "milk_row =
     \<lparr>irow_id = js ''I1'', irow_list_id = js ''L1'', irow_text = js ''Milk'',
      irow_completed = 0, irow_created_at = 11, irow_updated_at = 11\<rparr>"

definition eggs_row :: item_row where
  "eggs_row =
     \<lparr>irow_id = js ''I2'', irow_list_id = js ''L1'', irow_text = js ''Eggs'',
      irow_completed = 1, irow_created_at = 12, irow_updated_at = 12\<rparr>"

definition groceries_row :: list_row where
  "groceries_row =
     \<lparr>lrow_id = js ''L1'', lrow_name = js ''Groceries'', lrow_created_at = 10,
      lrow_updated_at = 10\<rparr>"

definition hardware_row :: list_row where
  "hardware_row =
     \<lparr>lrow_id = js ''L2'', lrow_name = js ''Hardware'', lrow_created_at = 20,
      lrow_updated_at = 20\<rparr>"

definition example_db :: database where
  "example_db =
     \<lparr>shopping_lists = [groceries_row, hardware_row],
      shopping_items = [milk_row, eggs_row],
      app_settings =
        [\<lparr>srow_id = 1, srow_theme_id = js ''custom'',
          srow_custom_colors = Some example_colors_json,
          srow_created_at = 5, srow_updated_at = 6\<rparr>]\<rparr>"

definition example_items_hook :: items_hook where
  "example_items_hook =
     \<lparr>items = [item_of_row milk_row, item_of_row eggs_row], isLoading = False, error = None\<rparr>"

definition example_lists_hook :: lists_hook where
  "example_lists_hook =
     \<lparr>lists = [list_of_row hardware_row, list_of_row groceries_row], lists_isLoading = False,
      lists_error = None\<rparr>"

text \<open>
  A first mutation through the callbacks of the render that shows \<open>example_items_hook\<close>:
  \<open>createItem\<close> of the item \<open>Bread\<close>, which succeeds.
\<close>

definition bread_item :: ShoppingItem where
  "bread_item =
     \<lparr>si_id = js ''I3'', si_listId = js ''L1'', si_text = js ''Bread'', si_completed = False,
      si_createdAt = 30, si_updatedAt = 30\<rparr>"

definition bread_created :: "ShoppingItem items_run" where
  "bread_created =
     createItem (js ''L1'') (js '' Bread '') (js ''I3'') 30 example_items_hook (Some example_db)"

text \<open>A store with one list whose first two items were created in the same millisecond.\<close>

definition tie_db :: database where
  "tie_db =
     \<lparr>shopping_lists = [groceries_row],
      shopping_items =
        [\<lparr>irow_id = js ''A'', irow_list_id = js ''L1'', irow_text = js ''Apples'',
          irow_completed = 0, irow_created_at = 50, irow_updated_at = 50\<rparr>,
         \<lparr>irow_id = js ''B'', irow_list_id = js ''L1'', irow_text = js ''Beans'',
          irow_completed = 0, irow_created_at = 50, irow_updated_at = 50\<rparr>,
         \<lparr>irow_id = js ''C'', irow_list_id = js ''L1'', irow_text = js ''Cocoa'',
          irow_completed = 0, irow_created_at = 70, irow_updated_at = 70\<rparr>],
      app_settings = []\<rparr>"

section \<open>Auxiliary facts\<close>

lemmas example_defs =
  example_db_def milk_row_def eggs_row_def groceries_row_def hardware_row_def
  example_items_hook_def example_lists_hook_def

lemma trim_blank: "trim (js '' '') = []"
  by (simp add: trim_def js_def isWhiteSpace_def)

lemma trim_long: "length (trim (replicate 101 (0x61 :: 16 word))) > 100"
  by (simp add: trim_def isWhiteSpace_def)

lemma find_Some_holds: "find P xs = Some x \<Longrightarrow> P x \<and> x \<in> set xs"
  by (induction xs) (auto split: if_splits)

lemma find_append_Some: "find P xs = Some x \<Longrightarrow> find P (xs @ ys) = Some x"
  by (induction xs) auto

lemma find_append_fresh:
  "\<forall>x \<in> set xs. \<not> P x \<Longrightarrow> P y \<Longrightarrow> find P (xs @ [y]) = Some y"
  by (induction xs) auto

lemma find_map_update:
  "find (\<lambda>r. k r = i) xs = Some x \<Longrightarrow> (\<And>r. k (f r) = k r) \<Longrightarrow>
   find (\<lambda>r. k r = i) (map (\<lambda>r. if k r = i then f r else r) xs) = Some (f x)"
  by (induction xs) (auto split: if_splits)

lemma validateListName_empty_default:
  "trim name = [] \<Longrightarrow> validateListName name True = Inr (js ''Shopping List'')"
  by (simp add: validateListName_def)

lemma validateListName_empty_strict:
  "trim name = [] \<Longrightarrow>
   validateListName name False =
     Inl (ValidationError (js ''List name cannot be empty'') (js ''name'') name)"
  by (simp add: validateListName_def)

lemma validateListName_invalid:
  "trim name = [] \<or> length (trim name) > 100 \<Longrightarrow>
   \<exists>m. validateListName name False = Inl (ValidationError m (js ''name'') name)"
  by (auto simp: validateListName_def Let_def)

lemma validateItemText_empty:
  "trim itemText = [] \<Longrightarrow>
   validateItemText itemText =
     Inl (ValidationError (js ''Item text cannot be empty'') (js ''text'') itemText)"
  by (simp add: validateItemText_def)

lemma validateItemText_invalid:
  "trim itemText = [] \<or> length (trim itemText) > 500 \<Longrightarrow>
   \<exists>m. validateItemText itemText = Inl (ValidationError m (js ''text'') itemText)"
  by (auto simp: validateItemText_def Let_def)

lemma example_select_milk: "select_item_by_id (js ''I1'') example_db = Some milk_row"
  by (simp add: select_item_by_id_def example_defs)

lemma example_select_eggs: "select_item_by_id (js ''I2'') example_db = Some eggs_row"
  by (simp add: select_item_by_id_def example_defs js_def)

lemma example_no_item: "select_item_by_id (js ''I9'') example_db = None"
  by (simp add: select_item_by_id_def example_defs js_def)

lemma example_no_list: "select_list_by_id (js ''L9'') example_db = None"
  by (simp add: select_list_by_id_def example_defs js_def)

section \<open>Collection names: lenient create, strict update\<close>

text \<open>
  C1. Collection-name validation is asymmetric between create and update. For every input
  name whose trim is empty, \<open>create\<close> on an initialised store (with an identifier not yet in
  the table) succeeds and returns a list whose name is the literal \<open>Shopping List\<close>, and the
  row is stored; \<open>update\<close> with the same input fails with a \<open>ValidationError\<close> on the field
  \<open>name\<close> and leaves the store, hence the stored name, unchanged.
\<close>

theorem create_lenient_update_strict:
  assumes "trim name = []"
    and "uuid \<notin> set (map lrow_id (shopping_lists db))"
  shows "ShoppingListsService_create name uuid now (Some db) =
           (Inr \<lparr>sl_id = uuid, sl_name = js ''Shopping List'', sl_createdAt = now,
                 sl_updatedAt = now\<rparr>,
            Some (db\<lparr>shopping_lists := shopping_lists db @
                        [\<lparr>lrow_id = uuid, lrow_name = js ''Shopping List'',
                          lrow_created_at = now, lrow_updated_at = now\<rparr>]\<rparr>))
       \<and> ShoppingListsService_update i name now' (Some db) =
           (Inl (ValidationError (js ''List name cannot be empty'') (js ''name'') name), Some db)"
  using assms
  by (simp add: ShoppingListsService_create_def ShoppingListsService_update_def
      validateListName_empty_default validateListName_empty_strict insert_list_def
      lists_catch_def)

theorem create_lenient_update_strict_witness:
  "ShoppingListsService_create (js '' '') (js ''L3'') 30 (Some example_db) =
     (Inr \<lparr>sl_id = js ''L3'', sl_name = js ''Shopping List'', sl_createdAt = 30,
           sl_updatedAt = 30\<rparr>,
      Some (example_db\<lparr>shopping_lists := shopping_lists example_db @
                        [\<lparr>lrow_id = js ''L3'', lrow_name = js ''Shopping List'',
                          lrow_created_at = 30, lrow_updated_at = 30\<rparr>]\<rparr>))
   \<and> ShoppingListsService_update (js ''L1'') (js '' '') 40 (Some example_db) =
     (Inl (ValidationError (js ''List name cannot be empty'') (js ''name'') (js '' '')),
      Some example_db)
   \<and> select_list_by_id (js ''L1'') example_db = Some groceries_row"
proof -
  have fresh: "js ''L3'' \<notin> set (map lrow_id (shopping_lists example_db))"
    by (simp add: example_defs js_def)
  have stored: "select_list_by_id (js ''L1'') example_db = Some groceries_row"
    by (simp add: select_list_by_id_def example_defs)
  show ?thesis
    using create_lenient_update_strict [OF trim_blank fresh, of 30 "js ''L1''" 40] stored
    by simp
qed

section \<open>Record text: strict create\<close>

text \<open>
  C6. Record Service create is strict and atomic on validation failure: for every list
  identifier and every text whose trim is empty, \<open>create\<close> fails with a \<open>ValidationError\<close>
  whose field is \<open>text\<close>, and the store is unchanged (no row is inserted, no default is
  substituted).
\<close>

theorem item_create_rejects_empty_text:
  assumes "trim itemText = []"
  shows "ShoppingItemsService_create listId itemText uuid now (Some db) =
           (Inl (ValidationError (js ''Item text cannot be empty'') (js ''text'') itemText),
            Some db)"
  using assms
  by (simp add: ShoppingItemsService_create_def validateItemText_empty items_write_catch_def)

theorem item_create_rejects_empty_text_witness:
  "ShoppingItemsService_create (js ''L1'') (js '' '') (js ''I3'') 30 (Some example_db) =
     (Inl (ValidationError (js ''Item text cannot be empty'') (js ''text'') (js '' '')),
      Some example_db)
   \<and> shopping_items example_db = [milk_row, eggs_row]"
  using item_create_rejects_empty_text [OF trim_blank, of "js ''L1''" "js ''I3''" 30 example_db]
  by (simp add: example_db_def)

section \<open>Validation comes before the existence check\<close>

text \<open>
  C10. Input validation takes precedence over existence checking. An update of a list or
  of an item whose input is invalid (empty after trim, or longer than the bound) and whose
  identifier resolves to no row fails with a \<open>ValidationError\<close>, not a \<open>NotFoundError\<close>, and
  so does the creation of an item with an invalid text in a list that does not exist; the
  store is unchanged.
\<close>

theorem validation_before_existence:
  "((trim name = [] \<or> length (trim name) > 100) \<and> select_list_by_id i db = None \<longrightarrow>
      (\<exists>m. ShoppingListsService_update i name now (Some db) =
             (Inl (ValidationError m (js ''name'') name), Some db)))
   \<and> ((trim itemText = [] \<or> length (trim itemText) > 500) \<and> select_item_by_id j db = None \<longrightarrow>
      (\<exists>m. ShoppingItemsService_update j itemText now (Some db) =
             (Inl (ValidationError m (js ''text'') itemText), Some db)))
   \<and> ((trim itemText = [] \<or> length (trim itemText) > 500) \<and> count_lists_by_id l db = 0 \<longrightarrow>
      (\<exists>m. ShoppingItemsService_create l itemText uuid now (Some db) =
             (Inl (ValidationError m (js ''text'') itemText), Some db)))"
proof (intro conjI impI)
  assume "(trim name = [] \<or> length (trim name) > 100) \<and> select_list_by_id i db = None"
  then obtain m where "validateListName name False = Inl (ValidationError m (js ''name'') name)"
    using validateListName_invalid by blast
  then show "\<exists>m. ShoppingListsService_update i name now (Some db) =
             (Inl (ValidationError m (js ''name'') name), Some db)"
    by (simp add: ShoppingListsService_update_def lists_catch_def)
next
  assume "(trim itemText = [] \<or> length (trim itemText) > 500) \<and> select_item_by_id j db = None"
  then obtain m where
    "validateItemText itemText = Inl (ValidationError m (js ''text'') itemText)"
    using validateItemText_invalid by blast
  then show "\<exists>m. ShoppingItemsService_update j itemText now (Some db) =
             (Inl (ValidationError m (js ''text'') itemText), Some db)"
    by (simp add: ShoppingItemsService_update_def items_write_catch_def)
next
  assume "(trim itemText = [] \<or> length (trim itemText) > 500) \<and> count_lists_by_id l db = 0"
  then obtain m where
    "validateItemText itemText = Inl (ValidationError m (js ''text'') itemText)"
    using validateItemText_invalid by blast
  then show "\<exists>m. ShoppingItemsService_create l itemText uuid now (Some db) =
             (Inl (ValidationError m (js ''text'') itemText), Some db)"
    by (simp add: ShoppingItemsService_create_def items_write_catch_def)
qed

theorem validation_before_existence_witness:
  "(\<exists>m. ShoppingListsService_update (js ''L9'') (replicate 101 0x61) 30 (Some example_db) =
          (Inl (ValidationError m (js ''name'') (replicate 101 0x61)), Some example_db))
   \<and> (\<exists>m. ShoppingItemsService_update (js ''I9'') (js '' '') 30 (Some example_db) =
          (Inl (ValidationError m (js ''text'') (js '' '')), Some example_db))
   \<and> (\<exists>m. ShoppingItemsService_create (js ''L9'') (js '' '') (js ''I3'') 30 (Some example_db) =
          (Inl (ValidationError m (js ''text'') (js '' '')), Some example_db))"
proof -
  have absent: "count_lists_by_id (js ''L9'') example_db = 0"
    by (simp add: count_lists_by_id_def example_defs js_def)
  show ?thesis
    using validation_before_existence
      [where name = "replicate 101 0x61" and i = "js ''L9''" and db = example_db
         and itemText = "js '' ''" and j = "js ''I9''" and l = "js ''L9''" and now = 30
         and uuid = "js ''I3''"]
      trim_long trim_blank example_no_list example_no_item absent
    by simp
qed

section \<open>Copying an item\<close>

text \<open>
  C7. For every existing item R, found by its identifier in an initialised store whose
  list still exists, \<open>copy\<close> with an identifier not yet in the table creates and returns a
  new item with R's text, completion flag and list, the new identifier (distinct from
  R's) and both timestamps equal to the time of the call; the new item is stored and R is
  still there. A successful copy never carries the source's identifier. If the source
  identifier resolves to no item, \<open>copy\<close> fails with the \<open>NotFoundError\<close>
  \<open>Shopping item not found\<close> and the store is unchanged.
\<close>

theorem copy_item_fields:
  "(select_item_by_id i db = Some row \<and> newId \<notin> set (map irow_id (shopping_items db))
      \<and> irow_list_id row \<in> set (map lrow_id (shopping_lists db)) \<longrightarrow>
      (\<exists>R' db'. ShoppingItemsService_copy i newId now (Some db) = (Inr R', Some db')
         \<and> si_text R' = si_text (item_of_row row)
         \<and> si_completed R' = si_completed (item_of_row row)
         \<and> si_listId R' = si_listId (item_of_row row)
         \<and> si_id R' = newId \<and> si_id R' \<noteq> si_id (item_of_row row)
         \<and> si_createdAt R' = now \<and> si_updatedAt R' = now
         \<and> fst (ShoppingItemsService_getById newId (Some db')) = Inr (Some R')
         \<and> fst (ShoppingItemsService_getById i (Some db')) = Inr (Some (item_of_row row))))
   \<and> (\<forall>R' h. ShoppingItemsService_copy i newId now (Some db) = (Inr R', h) \<longrightarrow> si_id R' \<noteq> i)
   \<and> (select_item_by_id i db = None \<longrightarrow>
        ShoppingItemsService_copy i newId now (Some db) =
          (Inl (NotFoundError (js ''Shopping item not found'') (js ''id'') i), Some db))"
proof (intro conjI impI allI)
  assume a: "select_item_by_id i db = Some row \<and> newId \<notin> set (map irow_id (shopping_items db))
      \<and> irow_list_id row \<in> set (map lrow_id (shopping_lists db))"
  let ?new = "\<lparr>irow_id = newId, irow_list_id = irow_list_id row, irow_text = irow_text row,
               irow_completed = (if irow_completed row \<noteq> 0 then 1 else 0),
               irow_created_at = now, irow_updated_at = now\<rparr>"
  let ?db' = "db\<lparr>shopping_items := shopping_items db @ [?new]\<rparr>"
  let ?R' = "\<lparr>si_id = newId, si_listId = irow_list_id row, si_text = irow_text row,
              si_completed = (irow_completed row \<noteq> 0), si_createdAt = now, si_updatedAt = now\<rparr>"
  from a have f: "find (\<lambda>r. irow_id r = i) (shopping_items db) = Some row"
    by (simp add: select_item_by_id_def)
  then have rid: "irow_id row = i" and rin: "row \<in> set (shopping_items db)"
    using find_Some_holds [of "\<lambda>r. irow_id r = i"] by auto
  from a rin rid have ne: "newId \<noteq> i" by auto
  from a have fresh: "\<forall>x \<in> set (shopping_items db). \<not> irow_id x = newId" by auto
  have ins: "insert_item ?new db = Inr ?db'"
    using a by (simp add: insert_item_def)
  have cp: "ShoppingItemsService_copy i newId now (Some db) = (Inr ?R', Some ?db')"
    using f ins
    by (simp add: ShoppingItemsService_copy_def ShoppingItemsService_getById_def
        select_item_by_id_def item_of_row_def)
  have g1: "fst (ShoppingItemsService_getById newId (Some ?db')) = Inr (Some ?R')"
    using find_append_fresh [of "shopping_items db" "\<lambda>r. irow_id r = newId" ?new] fresh
    by (simp add: ShoppingItemsService_getById_def select_item_by_id_def item_of_row_def)
  have g2: "fst (ShoppingItemsService_getById i (Some ?db')) = Inr (Some (item_of_row row))"
    using find_append_Some [OF f]
    by (simp add: ShoppingItemsService_getById_def select_item_by_id_def)
  show "\<exists>R' db'. ShoppingItemsService_copy i newId now (Some db) = (Inr R', Some db')
         \<and> si_text R' = si_text (item_of_row row)
         \<and> si_completed R' = si_completed (item_of_row row)
         \<and> si_listId R' = si_listId (item_of_row row)
         \<and> si_id R' = newId \<and> si_id R' \<noteq> si_id (item_of_row row)
         \<and> si_createdAt R' = now \<and> si_updatedAt R' = now
         \<and> fst (ShoppingItemsService_getById newId (Some db')) = Inr (Some R')
         \<and> fst (ShoppingItemsService_getById i (Some db')) = Inr (Some (item_of_row row))"
    using cp g1 g2 ne rid by (simp add: item_of_row_def)
next
  fix R' h
  assume ok: "ShoppingItemsService_copy i newId now (Some db) = (Inr R', h)"
  show "si_id R' \<noteq> i"
  proof (cases "select_item_by_id i db")
    case None
    with ok show ?thesis
      by (simp add: ShoppingItemsService_copy_def ShoppingItemsService_getById_def)
  next
    case (Some src)
    then have "irow_id src = i \<and> src \<in> set (shopping_items db)"
      using find_Some_holds [of "\<lambda>r. irow_id r = i" "shopping_items db" src]
      by (simp add: select_item_by_id_def)
    then have "i \<in> set (map irow_id (shopping_items db))" by auto
    with ok Some show ?thesis
      by (auto simp: ShoppingItemsService_copy_def ShoppingItemsService_getById_def
          insert_item_def split: if_splits)
  qed
next
  assume "select_item_by_id i db = None"
  then show "ShoppingItemsService_copy i newId now (Some db) =
          (Inl (NotFoundError (js ''Shopping item not found'') (js ''id'') i), Some db)"
    by (simp add: ShoppingItemsService_copy_def ShoppingItemsService_getById_def
        items_notfound_catch_def)
qed

theorem copy_item_fields_witness:
  "(\<exists>R' db'. ShoppingItemsService_copy (js ''I2'') (js ''I3'') 30 (Some example_db) =
               (Inr R', Some db')
         \<and> si_text R' = js ''Eggs'' \<and> si_completed R' \<and> si_listId R' = js ''L1''
         \<and> si_id R' = js ''I3'' \<and> si_id R' \<noteq> js ''I2''
         \<and> si_createdAt R' = 30 \<and> si_updatedAt R' = 30
         \<and> fst (ShoppingItemsService_getById (js ''I3'') (Some db')) = Inr (Some R')
         \<and> fst (ShoppingItemsService_getById (js ''I2'') (Some db')) =
             Inr (Some (item_of_row eggs_row)))
   \<and> ShoppingItemsService_copy (js ''I9'') (js ''I3'') 30 (Some example_db) =
       (Inl (NotFoundError (js ''Shopping item not found'') (js ''id'') (js ''I9'')),
        Some example_db)"
proof -
  have fresh: "js ''I3'' \<notin> set (map irow_id (shopping_items example_db))"
    by (simp add: example_defs js_def)
  have parent: "irow_list_id eggs_row \<in> set (map lrow_id (shopping_lists example_db))"
    by (simp add: example_defs)
  have fields: "item_of_row eggs_row =
      \<lparr>si_id = js ''I2'', si_listId = js ''L1'', si_text = js ''Eggs'', si_completed = True,
       si_createdAt = 12, si_updatedAt = 12\<rparr>"
    by (simp add: item_of_row_def eggs_row_def)
  show ?thesis
    using copy_item_fields
            [where i = "js ''I2''" and db = example_db and row = eggs_row
               and newId = "js ''I3''" and now = 30]
          copy_item_fields
            [where i = "js ''I9''" and db = example_db and row = eggs_row
               and newId = "js ''I3''" and now = 30]
          example_select_eggs example_no_item fresh parent fields
    by simp
qed

section \<open>Toggling completion twice\<close>

lemma toggle_once:
  assumes "select_item_by_id i db = Some row"
  shows "ShoppingItemsService_toggleComplete i now (Some db) =
           (Inr ((item_of_row row)\<lparr>si_completed := \<not> si_completed (item_of_row row),
                                   si_updatedAt := now\<rparr>),
            Some (update_item_completed (if irow_completed row = 0 then 1 else 0) now i db))"
  using assms
  by (simp add: ShoppingItemsService_toggleComplete_def ShoppingItemsService_getById_def
      item_of_row_def)

lemma select_after_toggle:
  assumes "select_item_by_id i db = Some row"
  shows "select_item_by_id i (update_item_completed c now i db) =
           Some (row\<lparr>irow_completed := c, irow_updated_at := now\<rparr>)"
  using assms
    find_map_update [of irow_id i "shopping_items db" row
      "\<lambda>r. r\<lparr>irow_completed := c, irow_updated_at := now\<rparr>"]
  by (simp add: select_item_by_id_def update_item_completed_def)

text \<open>
  C8. \<open>toggleComplete\<close> is an involution on the completed flag: for every item found in an
  initialised store, two calls in sequence both succeed, the first returns the item with
  the flag flipped, the second returns it with the original flag, and the item read back
  afterwards has its original completed value.
\<close>

theorem toggle_twice_restores:
  assumes "select_item_by_id i db = Some row"
  shows "\<exists>R1 db1 R2 db2.
           ShoppingItemsService_toggleComplete i now1 (Some db) = (Inr R1, Some db1)
         \<and> ShoppingItemsService_toggleComplete i now2 (Some db1) = (Inr R2, Some db2)
         \<and> si_completed R1 = (\<not> si_completed (item_of_row row))
         \<and> si_completed R2 = si_completed (item_of_row row)
         \<and> (\<exists>R. fst (ShoppingItemsService_getById i (Some db2)) = Inr (Some R)
                \<and> si_completed R = si_completed (item_of_row row))"
proof -
  let ?c1 = "if irow_completed row = 0 then 1 else (0::int)"
  let ?db1 = "update_item_completed ?c1 now1 i db"
  let ?row1 = "row\<lparr>irow_completed := ?c1, irow_updated_at := now1\<rparr>"
  let ?c2 = "if irow_completed ?row1 = 0 then 1 else (0::int)"
  let ?db2 = "update_item_completed ?c2 now2 i ?db1"
  let ?row2 = "?row1\<lparr>irow_completed := ?c2, irow_updated_at := now2\<rparr>"
  have s1: "select_item_by_id i ?db1 = Some ?row1"
    by (rule select_after_toggle [OF assms])
  have s2: "select_item_by_id i ?db2 = Some ?row2"
    by (rule select_after_toggle [OF s1])
  have t1: "ShoppingItemsService_toggleComplete i now1 (Some db) =
              (Inr ((item_of_row row)\<lparr>si_completed := \<not> si_completed (item_of_row row),
                                      si_updatedAt := now1\<rparr>), Some ?db1)"
    by (rule toggle_once [OF assms])
  have t2: "ShoppingItemsService_toggleComplete i now2 (Some ?db1) =
              (Inr ((item_of_row ?row1)\<lparr>si_completed := \<not> si_completed (item_of_row ?row1),
                                      si_updatedAt := now2\<rparr>), Some ?db2)"
    by (rule toggle_once [OF s1])
  have g: "fst (ShoppingItemsService_getById i (Some ?db2)) = Inr (Some (item_of_row ?row2))"
    using s2 by (simp add: ShoppingItemsService_getById_def)
  have c2: "si_completed (item_of_row ?row2) = si_completed (item_of_row row)"
    by (simp add: item_of_row_def)
  have c1: "(\<not> si_completed (item_of_row ?row1)) = si_completed (item_of_row row)"
    by (simp add: item_of_row_def)
  show ?thesis
    using t1 t2 g c1 c2 by simp
qed

theorem toggle_twice_restores_witness:
  "\<exists>R1 db1 R2 db2.
      ShoppingItemsService_toggleComplete (js ''I1'') 30 (Some example_db) = (Inr R1, Some db1)
    \<and> ShoppingItemsService_toggleComplete (js ''I1'') 40 (Some db1) = (Inr R2, Some db2)
    \<and> si_completed R1 = (\<not> si_completed (item_of_row milk_row))
    \<and> si_completed R2 = si_completed (item_of_row milk_row)
    \<and> (\<exists>R. fst (ShoppingItemsService_getById (js ''I1'') (Some db2)) = Inr (Some R)
           \<and> si_completed R = si_completed (item_of_row milk_row))"
  by (rule toggle_twice_restores [OF example_select_milk])

section \<open>Query orderings\<close>

lemma sorted_desc_of_neg:
  "sorted (map (\<lambda>r. - (f r :: int)) xs) \<Longrightarrow> sorted_wrt (\<lambda>a b. f b \<le> f a) xs"
  by (simp add: sorted_map)

lemma lists_rows_newest_first:
  "sorted_wrt (\<lambda>a b. lrow_created_at b \<le> lrow_created_at a) (select_lists_order_created_desc db)"
proof -
  have "sorted (map (\<lambda>r. - lrow_created_at r) (select_lists_order_created_desc db))"
    by (simp add: select_lists_order_created_desc_def)
  then show ?thesis by (rule sorted_desc_of_neg)
qed

lemma items_rows_oldest_first:
  "sorted_wrt (\<lambda>a b. irow_created_at a \<le> irow_created_at b)
     (select_items_by_list_order_created_asc l db)"
proof -
  let ?ys = "sort_key (\<lambda>r. - irow_created_at r)
               (filter (\<lambda>r. irow_list_id r = l) (shopping_items db))"
  have "sorted (map (\<lambda>r. - irow_created_at r) ?ys)" by simp
  then have "sorted_wrt (\<lambda>a b. irow_created_at b \<le> irow_created_at a) ?ys"
    by (rule sorted_desc_of_neg)
  then show ?thesis
    by (simp add: select_items_by_list_order_created_asc_def sorted_wrt_rev)
qed

text \<open>
  C9. Query ordering is opposite between the two entities: on every initialised store,
  \<open>getAll\<close> returns all the lists, each with the identifier, name and timestamps of its
  row, newest first (creation time descending), and \<open>getByListId\<close> returns the items of
  the given list, each with the identifier, list, text, completion flag and timestamps of
  its row, oldest first (creation time ascending).
\<close>

theorem list_orderings:
  "(\<exists>ls. fst (ShoppingListsService_getAll (Some db)) = Inr ls
        \<and> mset (map (\<lambda>x. (sl_id x, sl_name x, sl_createdAt x, sl_updatedAt x)) ls) =
          mset (map (\<lambda>r. (lrow_id r, lrow_name r, lrow_created_at r, lrow_updated_at r))
                 (shopping_lists db))
        \<and> sorted_wrt (\<lambda>a b. sl_createdAt b \<le> sl_createdAt a) ls)
   \<and> (\<exists>rs. fst (ShoppingItemsService_getByListId l (Some db)) = Inr rs
        \<and> mset (map (\<lambda>x. (si_id x, si_listId x, si_text x, si_completed x, si_createdAt x,
                            si_updatedAt x)) rs) =
          mset (map (\<lambda>r. (irow_id r, irow_list_id r, irow_text r, irow_completed r \<noteq> 0,
                            irow_created_at r, irow_updated_at r))
                 (filter (\<lambda>r. irow_list_id r = l) (shopping_items db)))
        \<and> sorted_wrt (\<lambda>a b. si_createdAt a \<le> si_createdAt b) rs)"
proof (intro conjI)
  let ?ls = "map list_of_row (select_lists_order_created_desc db)"
  have "sorted_wrt (\<lambda>a b. sl_createdAt b \<le> sl_createdAt a) ?ls"
    using lists_rows_newest_first [of db] by (simp add: sorted_wrt_map list_of_row_def)
  moreover have "mset (map (\<lambda>x. (sl_id x, sl_name x, sl_createdAt x, sl_updatedAt x)) ?ls) =
      mset (map (\<lambda>r. (lrow_id r, lrow_name r, lrow_created_at r, lrow_updated_at r))
             (shopping_lists db))"
    by (simp add: select_lists_order_created_desc_def list_of_row_def comp_def)
  ultimately show "\<exists>ls. fst (ShoppingListsService_getAll (Some db)) = Inr ls
        \<and> mset (map (\<lambda>x. (sl_id x, sl_name x, sl_createdAt x, sl_updatedAt x)) ls) =
          mset (map (\<lambda>r. (lrow_id r, lrow_name r, lrow_created_at r, lrow_updated_at r))
                 (shopping_lists db))
        \<and> sorted_wrt (\<lambda>a b. sl_createdAt b \<le> sl_createdAt a) ls"
    by (simp add: ShoppingListsService_getAll_def multiset.map_comp)
next
  let ?rs = "map item_of_row (select_items_by_list_order_created_asc l db)"
  have "sorted_wrt (\<lambda>a b. si_createdAt a \<le> si_createdAt b) ?rs"
    using items_rows_oldest_first [of l db] by (simp add: sorted_wrt_map item_of_row_def)
  moreover have
    "mset (map (\<lambda>x. (si_id x, si_listId x, si_text x, si_completed x, si_createdAt x,
                      si_updatedAt x)) ?rs) =
     mset (map (\<lambda>r. (irow_id r, irow_list_id r, irow_text r, irow_completed r \<noteq> 0,
                      irow_created_at r, irow_updated_at r))
            (filter (\<lambda>r. irow_list_id r = l) (shopping_items db)))"
    by (simp add: select_items_by_list_order_created_asc_def item_of_row_def comp_def)
  ultimately show "\<exists>rs. fst (ShoppingItemsService_getByListId l (Some db)) = Inr rs
        \<and> mset (map (\<lambda>x. (si_id x, si_listId x, si_text x, si_completed x, si_createdAt x,
                            si_updatedAt x)) rs) =
          mset (map (\<lambda>r. (irow_id r, irow_list_id r, irow_text r, irow_completed r \<noteq> 0,
                            irow_created_at r, irow_updated_at r))
                 (filter (\<lambda>r. irow_list_id r = l) (shopping_items db)))
        \<and> sorted_wrt (\<lambda>a b. si_createdAt a \<le> si_createdAt b) rs"
    by (simp add: ShoppingItemsService_getByListId_def multiset.map_comp)
qed

theorem list_orderings_witness:
  "fst (ShoppingListsService_getAll (Some example_db)) =
     Inr [\<lparr>sl_id = js ''L2'', sl_name = js ''Hardware'', sl_createdAt = 20, sl_updatedAt = 20\<rparr>,
          \<lparr>sl_id = js ''L1'', sl_name = js ''Groceries'', sl_createdAt = 10,
           sl_updatedAt = 10\<rparr>]
   \<and> fst (ShoppingItemsService_getByListId (js ''L1'') (Some example_db)) =
     Inr [\<lparr>si_id = js ''I1'', si_listId = js ''L1'', si_text = js ''Milk'',
           si_completed = False, si_createdAt = 11, si_updatedAt = 11\<rparr>,
          \<lparr>si_id = js ''I2'', si_listId = js ''L1'', si_text = js ''Eggs'',
           si_completed = True, si_createdAt = 12, si_updatedAt = 12\<rparr>]
   \<and> fst (ShoppingItemsService_getByListId (js ''L2'') (Some example_db)) = Inr []"
  using list_orderings [of example_db "js ''L1''"]
  by (simp add: ShoppingListsService_getAll_def ShoppingItemsService_getByListId_def
      select_lists_order_created_desc_def select_items_by_list_order_created_asc_def
      list_of_row_def item_of_row_def example_defs js_def)

text \<open>Items created in the same millisecond come back newest-inserted first.\<close>

lemma items_of_equal_time:
  "map si_id (projr (fst (ShoppingItemsService_getByListId (js ''L1'') (Some tie_db)))) =
     [js ''B'', js ''A'', js ''C'']"
  by (simp add: ShoppingItemsService_getByListId_def select_items_by_list_order_created_asc_def
      item_of_row_def tie_db_def)

section \<open>The hooks: what the cache holds when the service is called\<close>

lemma example_create_bread:
  "ShoppingItemsService_create (js ''L1'') (js '' Bread '') (js ''I3'') 30 (Some example_db) =
     (Inr bread_item,
      Some (example_db\<lparr>shopping_items := shopping_items example_db @
             [\<lparr>irow_id = js ''I3'', irow_list_id = js ''L1'', irow_text = js ''Bread'',
               irow_completed = 0, irow_created_at = 30, irow_updated_at = 30\<rparr>]\<rparr>))"
  by (simp add: ShoppingItemsService_create_def validateItemText_def trim_def isWhiteSpace_def
      count_lists_by_id_def insert_item_def example_defs js_def bread_item_def)

lemma example_update_milk:
  "fst (ShoppingItemsService_update (js ''I1'') (js '' Oat milk '') 30 (Some example_db)) =
     Inr \<lparr>si_id = js ''I1'', si_listId = js ''L1'', si_text = js ''Oat milk'',
          si_completed = False, si_createdAt = 11, si_updatedAt = 30\<rparr>"
  by (simp add: ShoppingItemsService_update_def ShoppingItemsService_getById_def
      validateItemText_def trim_def isWhiteSpace_def select_item_by_id_def item_of_row_def
      example_defs js_def)

lemma example_toggle_eggs:
  "fst (ShoppingItemsService_toggleComplete (js ''I2'') 30 (Some example_db)) =
     Inr \<lparr>si_id = js ''I2'', si_listId = js ''L1'', si_text = js ''Eggs'',
          si_completed = False, si_createdAt = 12, si_updatedAt = 30\<rparr>"
  by (simp add: ShoppingItemsService_toggleComplete_def ShoppingItemsService_getById_def
      select_item_by_id_def item_of_row_def example_defs js_def)

lemma example_delete_milk:
  "fst (ShoppingItemsService_deleteItem (js ''I1'') (Some example_db)) = Inr ()"
  by (simp add: ShoppingItemsService_deleteItem_def ShoppingItemsService_getById_def
      select_item_by_id_def example_defs)

lemma example_copy_milk:
  "fst (ShoppingItemsService_copy (js ''I1'') (js ''I3'') 30 (Some example_db)) =
     Inr \<lparr>si_id = js ''I3'', si_listId = js ''L1'', si_text = js ''Milk'',
          si_completed = False, si_createdAt = 30, si_updatedAt = 30\<rparr>"
  by (simp add: ShoppingItemsService_copy_def ShoppingItemsService_getById_def
      select_item_by_id_def item_of_row_def insert_item_def example_defs js_def)

lemma example_create_list:
  "fst (ShoppingListsService_create (js ''Garden'') (js ''L3'') 30 (Some example_db)) =
     Inr \<lparr>sl_id = js ''L3'', sl_name = js ''Garden'', sl_createdAt = 30, sl_updatedAt = 30\<rparr>"
  by (simp add: ShoppingListsService_create_def validateListName_def trim_def isWhiteSpace_def
      insert_list_def example_defs js_def)

text \<open>
  C2. Every mutating call of the cache layer is claimed to apply its mutation to the cache
  before the service call is invoked. \<open>createItem\<close>, \<open>copyItem\<close> and \<open>createList\<close> do not:
  on the example cache and store each of the three service calls succeeds, the cache at
  the moment the service is called is still the cache from before, without the new
  entry, and the entry is in the cache only once the service has returned it.
\<close>

theorem createItem_not_optimistic:
  "outcome (createItem (js ''L1'') (js '' Bread '') (js ''I3'') 30 example_items_hook
             (Some example_db)) = Inr bread_item
   \<and> items (at_service_call (createItem (js ''L1'') (js '' Bread '') (js ''I3'') 30
               example_items_hook (Some example_db))) =
     [item_of_row milk_row, item_of_row eggs_row]
   \<and> items (settled (createItem (js ''L1'') (js '' Bread '') (js ''I3'') 30
               example_items_hook (Some example_db))) =
     [item_of_row milk_row, item_of_row eggs_row, bread_item]
   \<and> outcome (copyItem (js ''I1'') (js ''I3'') 30 example_items_hook (Some example_db)) =
     Inr \<lparr>si_id = js ''I3'', si_listId = js ''L1'', si_text = js ''Milk'', si_completed = False,
          si_createdAt = 30, si_updatedAt = 30\<rparr>
   \<and> items (at_service_call (copyItem (js ''I1'') (js ''I3'') 30 example_items_hook
               (Some example_db))) =
     [item_of_row milk_row, item_of_row eggs_row]
   \<and> items (settled (copyItem (js ''I1'') (js ''I3'') 30 example_items_hook
               (Some example_db))) =
     [item_of_row milk_row,
      \<lparr>si_id = js ''I3'', si_listId = js ''L1'', si_text = js ''Milk'', si_completed = False,
       si_createdAt = 30, si_updatedAt = 30\<rparr>,
      item_of_row eggs_row]
   \<and> lists_outcome (createList (js ''Garden'') (js ''L3'') 30 example_lists_hook
                      (Some example_db)) =
     Inr \<lparr>sl_id = js ''L3'', sl_name = js ''Garden'', sl_createdAt = 30, sl_updatedAt = 30\<rparr>
   \<and> lists (lists_at_service_call (createList (js ''Garden'') (js ''L3'') 30
               example_lists_hook (Some example_db))) =
     [list_of_row hardware_row, list_of_row groceries_row]
   \<and> lists (lists_settled (createList (js ''Garden'') (js ''L3'') 30 example_lists_hook
               (Some example_db))) =
     [\<lparr>sl_id = js ''L3'', sl_name = js ''Garden'', sl_createdAt = 30, sl_updatedAt = 30\<rparr>,
      list_of_row hardware_row, list_of_row groceries_row]"
  by (simp add: createItem_def copyItem_def createList_def example_create_bread
      example_copy_milk example_create_list Let_def example_items_hook_def
      example_lists_hook_def item_of_row_def milk_row_def)

text \<open>
  The other mutations do follow the protocol. \<open>updateItem\<close>, \<open>toggleComplete\<close>,
  \<open>deleteItem\<close> and \<open>deleteList\<close> change the cache before the service is called; when
  \<open>update\<close> or \<open>toggleComplete\<close> succeeds, the entry with that identifier is replaced by
  the item the service returned; the two deletions return nothing, and on success the
  cache stays as it was at the call.
\<close>

lemma optimistic_before_service_call:
  "items (at_service_call (updateItem i2 t2 ui2 n2 ri st db)) =
      map (\<lambda>item. if si_id item = i2 then item\<lparr>si_text := t2, si_updatedAt := ui2\<rparr> else item)
        (items st)
   \<and> (fst (ShoppingItemsService_update i2 t2 n2 db) = Inr r2 \<longrightarrow>
        outcome (updateItem i2 t2 ui2 n2 ri st db) = Inr r2
        \<and> items (settled (updateItem i2 t2 ui2 n2 ri st db)) =
            map (\<lambda>item. if si_id item = i2 then r2 else item)
              (items (at_service_call (updateItem i2 t2 ui2 n2 ri st db))))
   \<and> items (at_service_call (toggleComplete i4 ui4 n4 ri st db)) =
      map (\<lambda>item. if si_id item = i4
                   then item\<lparr>si_completed := \<not> si_completed item, si_updatedAt := ui4\<rparr>
                   else item) (items st)
   \<and> (fst (ShoppingItemsService_toggleComplete i4 n4 db) = Inr r4 \<longrightarrow>
        outcome (toggleComplete i4 ui4 n4 ri st db) = Inr r4
        \<and> items (settled (toggleComplete i4 ui4 n4 ri st db)) =
            map (\<lambda>item. if si_id item = i4 then r4 else item)
              (items (at_service_call (toggleComplete i4 ui4 n4 ri st db))))
   \<and> items (at_service_call (deleteItem i5 ri st db)) =
      filter (\<lambda>item. si_id item \<noteq> i5) (items st)
   \<and> (fst (ShoppingItemsService_deleteItem i5 db) = Inr () \<longrightarrow>
        outcome (deleteItem i5 ri st db) = Inr ()
        \<and> items (settled (deleteItem i5 ri st db)) =
            filter (\<lambda>item. si_id item \<noteq> i5) (items st))
   \<and> lists (lists_at_service_call (deleteList i7 rl ls db)) =
      filter (\<lambda>x. sl_id x \<noteq> i7) (lists ls)
   \<and> (fst (ShoppingListsService_deleteList i7 db) = Inr () \<longrightarrow>
        lists_outcome (deleteList i7 rl ls db) = Inr ()
        \<and> lists (lists_settled (deleteList i7 rl ls db)) =
            filter (\<lambda>x. sl_id x \<noteq> i7) (lists ls))"
  by (simp add: updateItem_def toggleComplete_def deleteItem_def deleteList_def Let_def
      split: sum.splits)

lemma example_update_is_optimistic:
  "items (at_service_call (updateItem (js ''I1'') (js '' Oat milk '') 29 30
            (items example_items_hook) example_items_hook (Some example_db))) =
     [\<lparr>si_id = js ''I1'', si_listId = js ''L1'', si_text = js '' Oat milk '',
       si_completed = False, si_createdAt = 11, si_updatedAt = 29\<rparr>, item_of_row eggs_row]
   \<and> items (settled (updateItem (js ''I1'') (js '' Oat milk '') 29 30
            (items example_items_hook) example_items_hook (Some example_db))) =
     [\<lparr>si_id = js ''I1'', si_listId = js ''L1'', si_text = js ''Oat milk'',
       si_completed = False, si_createdAt = 11, si_updatedAt = 30\<rparr>, item_of_row eggs_row]
   \<and> items (at_service_call (deleteItem (js ''I1'') (items example_items_hook)
            example_items_hook (Some example_db))) =
     [item_of_row eggs_row]
   \<and> items (settled (deleteItem (js ''I1'') (items example_items_hook) example_items_hook
            (Some example_db))) =
     [item_of_row eggs_row]"
proof -
  have cached: "items example_items_hook = [item_of_row milk_row, item_of_row eggs_row]"
    by (simp add: example_items_hook_def)
  have ids: "si_id (item_of_row milk_row) = js ''I1''" "si_id (item_of_row eggs_row) = js ''I2''"
    "js ''I1'' \<noteq> js ''I2''" "js ''I2'' \<noteq> js ''I1''"
    by (simp_all add: item_of_row_def milk_row_def eggs_row_def js_def)
  have fields:
    "(item_of_row milk_row)\<lparr>si_text := js '' Oat milk '', si_updatedAt := 29\<rparr> =
       \<lparr>si_id = js ''I1'', si_listId = js ''L1'', si_text = js '' Oat milk '',
        si_completed = False, si_createdAt = 11, si_updatedAt = 29\<rparr>"
    by (simp add: item_of_row_def milk_row_def)
  show ?thesis
    using optimistic_before_service_call
            [where ?i2.0 = "js ''I1''" and ?t2.0 = "js '' Oat milk ''" and ?ui2.0 = 29
               and ?n2.0 = 30 and ri = "items example_items_hook" and st = example_items_hook
               and db = "Some example_db"
               and ?r2.0 = "\<lparr>si_id = js ''I1'', si_listId = js ''L1'',
                               si_text = js ''Oat milk'', si_completed = False,
                               si_createdAt = 11, si_updatedAt = 30\<rparr>"
               and ?i5.0 = "js ''I1''"]
          example_update_milk example_delete_milk cached ids fields
    by simp
qed

section \<open>The hooks: rollback\<close>

lemma blank_update_fails:
  "ShoppingItemsService_update (js ''I1'') (js '' '') 40 dbInstance =
     (Inl (if dbInstance = None
           then DatabaseError (js ''Failed to update shopping item'') (Some not_initialized)
           else ValidationError (js ''Item text cannot be empty'') (js ''text'') (js '' '')),
      dbInstance)"
  by (cases dbInstance)
     (simp_all add: ShoppingItemsService_update_def validateItemText_empty trim_blank
        items_write_catch_def not_initialized_def)

lemma bread_created_run:
  "outcome bread_created = Inr bread_item
   \<and> items (settled bread_created) = [item_of_row milk_row, item_of_row eggs_row, bread_item]
   \<and> error (settled bread_created) = None
   \<and> handle bread_created =
       Some (example_db\<lparr>shopping_items := shopping_items example_db @
             [\<lparr>irow_id = js ''I3'', irow_list_id = js ''L1'', irow_text = js ''Bread'',
               irow_completed = 0, irow_created_at = 30, irow_updated_at = 30\<rparr>]\<rparr>)"
  by (simp add: bread_created_def createItem_def example_create_bread Let_def
      example_items_hook_def)

text \<open>
  C5. Rollback is claimed to be exact: when the service call of a mutation rejects, the
  cache afterwards equals the cache immediately before the mutation. The callbacks of one
  render are used twice in a row on the example cache: \<open>createItem\<close> of \<open>Bread\<close> succeeds
  and the cache holds three items; then \<open>updateItem\<close> of the first item with a blank text,
  through the callback of the same render (its \<open>items\<close> is still the list of two), is
  rejected by the service with a \<open>ValidationError\<close>. The error is re-thrown, but the
  rollback puts the list of two back: the cache no longer holds \<open>Bread\<close>, which the store
  still has.
\<close>

theorem stale_render_rollback_not_exact:
  "outcome bread_created = Inr bread_item
   \<and> items (settled bread_created) = [item_of_row milk_row, item_of_row eggs_row, bread_item]
   \<and> outcome (updateItem (js ''I1'') (js '' '') 39 40 (items example_items_hook)
                (settled bread_created) (handle bread_created)) =
       Inl (ValidationError (js ''Item text cannot be empty'') (js ''text'') (js '' ''))
   \<and> items (settled (updateItem (js ''I1'') (js '' '') 39 40 (items example_items_hook)
                       (settled bread_created) (handle bread_created))) =
       [item_of_row milk_row, item_of_row eggs_row]
   \<and> items (settled (updateItem (js ''I1'') (js '' '') 39 40 (items example_items_hook)
                       (settled bread_created) (handle bread_created))) \<noteq>
       items (settled bread_created)
   \<and> fst (ShoppingItemsService_getById (js ''I3'')
            (handle (updateItem (js ''I1'') (js '' '') 39 40 (items example_items_hook)
                       (settled bread_created) (handle bread_created)))) =
       Inr (Some bread_item)"
proof -
  have upd: "ShoppingItemsService_update (js ''I1'') (js '' '') 40 (handle bread_created) =
      (Inl (ValidationError (js ''Item text cannot be empty'') (js ''text'') (js '' '')),
       handle bread_created)"
    using bread_created_run by (simp add: blank_update_fails)
  have stored: "fst (ShoppingItemsService_getById (js ''I3'') (handle bread_created)) =
      Inr (Some bread_item)"
    using bread_created_run
    by (simp add: ShoppingItemsService_getById_def select_item_by_id_def item_of_row_def
        example_defs js_def bread_item_def)
  have cached: "items example_items_hook = [item_of_row milk_row, item_of_row eggs_row]"
    by (simp add: example_items_hook_def)
  show ?thesis
    using bread_created_run upd stored cached
    by (simp add: updateItem_def Let_def)
qed

text \<open>
  What does hold: every mutation re-throws the error of its service call, and the
  rollback of \<open>updateItem\<close>, \<open>toggleComplete\<close>, \<open>deleteItem\<close> and \<open>deleteList\<close> is exact
  when the list the callback closed over is the live list; \<open>createItem\<close>, \<open>copyItem\<close> and
  \<open>createList\<close> have not touched the list when their service call rejects.
\<close>

lemma mutation_rethrows:
  "(fst (ShoppingItemsService_create l t1 u1 n1 db) = Inl e \<longrightarrow>
      outcome (createItem l t1 u1 n1 st db) = Inl e
      \<and> items (settled (createItem l t1 u1 n1 st db)) = items st)
   \<and> (fst (ShoppingItemsService_update i2 t2 n2 db) = Inl e \<longrightarrow>
      outcome (updateItem i2 t2 ui2 n2 ri st db) = Inl e
      \<and> items (settled (updateItem i2 t2 ui2 n2 ri st db)) = ri)
   \<and> (fst (ShoppingItemsService_copy i3 u3 n3 db) = Inl e \<longrightarrow>
      outcome (copyItem i3 u3 n3 st db) = Inl e
      \<and> items (settled (copyItem i3 u3 n3 st db)) = items st)
   \<and> (fst (ShoppingItemsService_toggleComplete i4 n4 db) = Inl e \<longrightarrow>
      outcome (toggleComplete i4 ui4 n4 ri st db) = Inl e
      \<and> items (settled (toggleComplete i4 ui4 n4 ri st db)) = ri)
   \<and> (fst (ShoppingItemsService_deleteItem i5 db) = Inl e \<longrightarrow>
      outcome (deleteItem i5 ri st db) = Inl e
      \<and> items (settled (deleteItem i5 ri st db)) = ri)
   \<and> (fst (ShoppingListsService_create t6 u6 n6 db) = Inl e \<longrightarrow>
      lists_outcome (createList t6 u6 n6 ls db) = Inl e
      \<and> lists (lists_settled (createList t6 u6 n6 ls db)) = lists ls)
   \<and> (fst (ShoppingListsService_deleteList i7 db) = Inl e \<longrightarrow>
      lists_outcome (deleteList i7 rl ls db) = Inl e
      \<and> lists (lists_settled (deleteList i7 rl ls db)) = rl)"
  by (simp add: createItem_def updateItem_def copyItem_def toggleComplete_def deleteItem_def
      createList_def deleteList_def Let_def)

lemma rollback_exact_when_render_current:
  assumes "ri = items st"
  shows "(fst (ShoppingItemsService_update i2 t2 n2 db) = Inl e \<longrightarrow>
            items (settled (updateItem i2 t2 ui2 n2 ri st db)) = items st)
       \<and> (fst (ShoppingItemsService_toggleComplete i4 n4 db) = Inl e \<longrightarrow>
            items (settled (toggleComplete i4 ui4 n4 ri st db)) = items st)
       \<and> (fst (ShoppingItemsService_deleteItem i5 db) = Inl e \<longrightarrow>
            items (settled (deleteItem i5 ri st db)) = items st)"
  using assms mutation_rethrows [of _ _ _ _ db e st i2 t2 n2 ui2 ri _ _ _ i4 n4 ui4 i5]
  by simp

section \<open>Settings: switching to a preset theme\<close>

text \<open>
  C4. Selecting a preset theme is claimed to clear the stored custom colours. On the
  example store, whose settings row holds the custom theme and a colour map,
  \<open>updateTheme\<close> with the preset \<open>cyberpunk\<close> succeeds, and the row it leaves (and the
  settings it returns) carry the new theme together with the old colour map;
  \<open>resetToDefault\<close> on the same store leaves no colour map.
\<close>

theorem updateTheme_keeps_custom_colors:
  "updateTheme Some (js ''cyberpunk'') 40 (Some example_db) =
     (Inr \<lparr>as_id = 1, as_themeId = js ''cyberpunk'',
           as_customColors = Some example_colors_json, as_createdAt = 5, as_updatedAt = 40\<rparr>,
      Some (example_db\<lparr>app_settings :=
              [\<lparr>srow_id = 1, srow_theme_id = js ''cyberpunk'',
                srow_custom_colors = Some example_colors_json,
                srow_created_at = 5, srow_updated_at = 40\<rparr>]\<rparr>))
   \<and> js ''cyberpunk'' \<noteq> js ''custom''
   \<and> resetToDefault Some 40 (Some example_db) =
     (Inr \<lparr>as_id = 1, as_themeId = js ''default'', as_customColors = None,
           as_createdAt = 5, as_updatedAt = 40\<rparr>,
      Some (example_db\<lparr>app_settings :=
              [\<lparr>srow_id = 1, srow_theme_id = js ''default'', srow_custom_colors = None,
                srow_created_at = 5, srow_updated_at = 40\<rparr>]\<rparr>))"
  by (simp add: updateTheme_def resetToDefault_def getSettings_def select_settings_def
      example_db_def example_colors_json_def js_def)

section \<open>The first migration and text lengths\<close>

text \<open>
  C3. The first migration is claimed to create the two tables with length constraints on
  the list name (1 to 100) and the item text (1 to 500), so that the store rejects a row
  outside the bounds. Run on an empty schema, \<open>runMigrationV1\<close> succeeds and creates both
  tables and the index on \<open>created_at DESC\<close>, but neither column carries a constraint: the
  store accepts an empty name, a name of 101 characters and an empty item text.
\<close>

theorem runMigrationV1_no_length_checks:
  "fst (runMigrationV1 1000 empty_schema) = None
   \<and> map tbl_name (tables (snd (runMigrationV1 1000 empty_schema))) =
       [''shopping_lists'', ''shopping_items'']
   \<and> \<lparr>idx_name = ''idx_lists_created'', idx_table = ''shopping_lists'',
       idx_columns = [(''created_at'', DESC)]\<rparr>
       \<in> set (indexes (snd (runMigrationV1 1000 empty_schema)))
   \<and> store_accepts (snd (runMigrationV1 1000 empty_schema)) ''shopping_lists'' ''name''
        (Text [])
   \<and> store_accepts (snd (runMigrationV1 1000 empty_schema)) ''shopping_lists'' ''name''
        (Text (replicate 101 0x61))
   \<and> store_accepts (snd (runMigrationV1 1000 empty_schema)) ''shopping_items'' ''text''
        (Text [])
   \<and> \<not> check_holds (LengthBetween 1 100) (Text [])
   \<and> \<not> check_holds (LengthBetween 1 100) (Text (replicate 101 0x61))
   \<and> \<not> check_holds (LengthBetween 1 500) (Text [])"
  by (simp add: runMigrationV1_def empty_schema_def create_table_if_not_exists_def
      create_index_if_not_exists_def insert_schema_version_def shopping_lists_table_def
      shopping_items_table_def store_accepts_def column_accepts_def sql_length_def)

end
